theory Spec2Isabelle
  imports
    Main
    "HOL-Library.Word"
    "HOL-Library.Sublist"
    "HOL-Library.Char_ord"
    "HOL-Library.List_Lexorder"
begin

unbundle bit_operations_syntax

section \<open>The agent bridge: data model\<close>

text \<open>
  The server of \<^verbatim>\<open>src/server.py\<close> keeps three module-level stores
  (\<^verbatim>\<open>messages\<close>, \<^verbatim>\<open>tasks\<close>, \<^verbatim>\<open>shared_context\<close>) and one handler,
  \<^verbatim>\<open>call_tool(name, arguments)\<close>, that dispatches on the tool name. The stores
  are lists of dictionaries with a fixed key set; here they are lists of records.
  Python strings are modelled as byte strings (UTF-8).
\<close>

text \<open>The opaque \<^verbatim>\<open>context\<close> payload of a task is any JSON value.\<close>

datatype json =
    JNull
  | JBool bool
  | JNum int
  | JStr string
  | JArr "json list"
  | JObj "(string \<times> json) list"

record message =
  m_id :: string
  m_from :: string
  m_to :: string
  m_content :: string
  m_timestamp :: string
  m_read :: bool

record task =
  t_id :: string
  t_title :: string
  t_description :: string
  t_assignedTo :: string
  t_createdBy :: string
  t_status :: string
  t_priority :: string
  t_createdAt :: string
  t_updatedAt :: string
  t_context :: json

record ctx =
  c_currentBranch :: string
  c_activeFiles :: "string list"
  c_recentChanges :: "string list"
  c_notes :: string
  c_lastUpdated :: string

record store =
  messages :: "message list"
  tasks :: "task list"
  shared_context :: ctx

subsection \<open>The environment: clock and random source\<close>

text \<open>
  A value returned by \<^verbatim>\<open>datetime.now()\<close> is observed by the code in two ways
  only: through \<^verbatim>\<open>.isoformat()\<close> and through \<^verbatim>\<open>int(.timestamp() * 1000)\<close>.
  A reading of the clock is the pair of these two observations (the floating-point
  product is not modelled, only its integer result). A \<^verbatim>\<open>uuid4()\<close> is a
  128-bit number. One call of the handler reads the clock and the random source
  several times: \<open>now e k\<close> is the reading of the \<open>k\<close>-th call of
  \<^verbatim>\<open>datetime.now()\<close> during the handler (counted from 0, in evaluation order),
  \<open>uuid4 e k\<close> the result of the \<open>k\<close>-th call of \<^verbatim>\<open>uuid4()\<close>.
\<close>

record datetime =
  isoformat :: string
  timestamp_ms :: int

type_synonym uuid = "128 word"

record env =
  now :: "nat \<Rightarrow> datetime"
  uuid4 :: "nat \<Rightarrow> uuid"

subsection \<open>Arguments, errors and responses\<close>

text \<open>
  \<^verbatim>\<open>arguments: dict[str, Any]\<close>: every key of every tool's input schema, each
  possibly absent, with the type the schema declares. \<^verbatim>\<open>arguments["k"]\<close> on an
  absent key raises \<^verbatim>\<open>KeyError\<close>; \<^verbatim>\<open>arguments.get("k", d)\<close> yields the default.
\<close>

record arguments =
  a_from :: "string option"
  a_to :: "string option"
  a_content :: "string option"
  a_agent :: "string option"
  a_unreadOnly :: "bool option"
  a_messageIds :: "string list option"
  a_title :: "string option"
  a_description :: "string option"
  a_assignedTo :: "string option"
  a_createdBy :: "string option"
  a_priority :: "string option"
  a_context :: "json option"
  a_filter :: "string option"
  a_status :: "string option"
  a_taskId :: "string option"
  a_notes :: "string option"
  a_currentBranch :: "string option"
  a_activeFiles :: "string list option"
  a_recentChanges :: "string list option"
  a_workingOn :: "string list option"

definition no_arguments :: arguments where
  "no_arguments = \<lparr>a_from = None, a_to = None, a_content = None, a_agent = None,
     a_unreadOnly = None, a_messageIds = None, a_title = None, a_description = None,
     a_assignedTo = None, a_createdBy = None, a_priority = None, a_context = None,
     a_filter = None, a_status = None, a_taskId = None, a_notes = None,
     a_currentBranch = None, a_activeFiles = None, a_recentChanges = None,
     a_workingOn = None\<rparr>"

datatype error = KeyError string

text \<open>The JSON payload of the returned \<^verbatim>\<open>TextContent\<close>, one constructor per shape.\<close>

datatype response =
    MessageSent string
  | MessageList nat "message list"
  | MarkedRead nat
  | TaskCreated string
  | TaskList nat "task list"
  | ErrorPayload string
  | TaskUpdated task
  | ContextUpdated ctx
  | ContextPayload ctx
  | Success

type_synonym outcome = "(error + response) \<times> store"

section \<open>The identifier generator\<close>

text \<open>\<^verbatim>\<open>str(n)\<close> of a Python integer: decimal digits, a minus sign when negative.\<close>

definition digit_char :: "nat \<Rightarrow> char" where
  "digit_char d = ''0123456789abcdef'' ! d"

function str_nat :: "nat \<Rightarrow> string" where
  "str_nat n = (if n < 10 then [digit_char n] else str_nat (n div 10) @ [digit_char (n mod 10)])"
  by pat_completeness auto
termination
  by (relation "measure id") auto

declare str_nat.simps [simp del]

definition str_int :: "int \<Rightarrow> string" where
  "str_int i = (if i < 0 then CHR ''-'' # str_nat (nat (- i)) else str_nat (nat i))"

text \<open>\<^verbatim>\<open>uuid.hex\<close>: the 32 lower-case hexadecimal digits, most significant first.\<close>

definition hex :: "uuid \<Rightarrow> string" where
  "hex u = map (\<lambda>k. digit_char (unat (drop_bit (4 * (31 - k)) u AND 15))) [0..<32]"

text \<open>
  \<^verbatim>\<open>f"{int(datetime.now().timestamp() * 1000)}-{uuid4().hex[:9]}"\<close>, from one
  reading of the clock and one of the random source.
\<close>

definition generate_id :: "datetime \<Rightarrow> uuid \<Rightarrow> string" where
  "generate_id d u = str_int (timestamp_ms d) @ ''-'' @ take 9 (hex u)"

section \<open>The tool handlers\<close>

text \<open>The three literal prefixes of the notification bodies, as the bytes of the source file.\<close>

definition new_task_prefix :: string where
  "new_task_prefix =
     [CHR 0xC4, CHR 0x9F, CHR 0xC5, CHR 0xB8, CHR 0xE2, CHR 0x80, CHR 0x9C, CHR 0xE2, CHR 0x80, CHR 0xB9]
     @ '' New task: ''"

definition completed_prefix :: string where
  "completed_prefix =
     [CHR 0xC3, CHR 0xA2, CHR 0xC5, CHR 0x93, CHR 0xE2, CHR 0x80, CHR 0xA6] @ '' Completed: ''"

definition online_prefix :: string where
  "online_prefix =
     [CHR 0xC4, CHR 0x9F, CHR 0xC5, CHR 0xB8, CHR 0xC5, CHR 0xB8, CHR 0xC2, CHR 0xA2] @ '' ''"

definition quote :: string where
  "quote = [CHR 0x22]"

subsection \<open>Messages\<close>

definition send_message :: "env \<Rightarrow> arguments \<Rightarrow> store \<Rightarrow> outcome" where
  "send_message e a st =
     (let new_id = generate_id (now e 0) (uuid4 e 0) in
      case a_from a of None \<Rightarrow> (Inl (KeyError ''from''), st) | Some frm \<Rightarrow>
     (case a_to a of None \<Rightarrow> (Inl (KeyError ''to''), st) | Some rcpt \<Rightarrow>
     (case a_content a of None \<Rightarrow> (Inl (KeyError ''content''), st) | Some content \<Rightarrow>
        let message = \<lparr>m_id = new_id, m_from = frm, m_to = rcpt, m_content = content,
                        m_timestamp = isoformat (now e 1), m_read = False\<rparr>
        in (Inr (MessageSent (m_id message)), st\<lparr>messages := messages st @ [message]\<rparr>))))"

definition get_messages :: "arguments \<Rightarrow> store \<Rightarrow> outcome" where
  "get_messages a st =
     (case a_agent a of None \<Rightarrow> (Inl (KeyError ''agent''), st) | Some agent \<Rightarrow>
        let unread_only = (case a_unreadOnly a of None \<Rightarrow> False | Some b \<Rightarrow> b);
            filtered = filter (\<lambda>m. m_to m = agent \<or> m_to m = ''all'') (messages st);
            filtered = (if unread_only then filter (\<lambda>m. \<not> m_read m) filtered else filtered)
        in (Inr (MessageList (length filtered) filtered), st))"

text \<open>
  The loop \<^verbatim>\<open>for msg in messages: if msg["id"] in ids: msg["read"] = True; marked += 1\<close>:
  the messages after the loop and the final counter.
\<close>

fun mark_loop :: "string list \<Rightarrow> message list \<Rightarrow> nat \<Rightarrow> message list \<times> nat" where
  "mark_loop ids [] marked = ([], marked)"
| "mark_loop ids (msg # rest) marked =
     (if m_id msg \<in> set ids
      then (let (rest', n) = mark_loop ids rest (marked + 1) in (msg\<lparr>m_read := True\<rparr> # rest', n))
      else (let (rest', n) = mark_loop ids rest marked in (msg # rest', n)))"

definition mark_messages_read :: "arguments \<Rightarrow> store \<Rightarrow> outcome" where
  "mark_messages_read a st =
     (case a_messageIds a of None \<Rightarrow> (Inl (KeyError ''messageIds''), st) | Some ids \<Rightarrow>
        let (msgs, marked) = mark_loop ids (messages st) 0
        in (Inr (MarkedRead marked), st\<lparr>messages := msgs\<rparr>))"

subsection \<open>Tasks\<close>

definition create_task :: "env \<Rightarrow> arguments \<Rightarrow> store \<Rightarrow> outcome" where
  "create_task e a st =
     (let new_id = generate_id (now e 0) (uuid4 e 0) in
      case a_title a of None \<Rightarrow> (Inl (KeyError ''title''), st) | Some title \<Rightarrow>
     (case a_description a of None \<Rightarrow> (Inl (KeyError ''description''), st) | Some descr \<Rightarrow>
     (case a_assignedTo a of None \<Rightarrow> (Inl (KeyError ''assignedTo''), st) | Some assignee \<Rightarrow>
     (case a_createdBy a of None \<Rightarrow> (Inl (KeyError ''createdBy''), st) | Some creator \<Rightarrow>
        let task = \<lparr>t_id = new_id, t_title = title, t_description = descr,
                     t_assignedTo = assignee, t_createdBy = creator, t_status = ''pending'',
                     t_priority = (case a_priority a of None \<Rightarrow> ''medium'' | Some p \<Rightarrow> p),
                     t_createdAt = isoformat (now e 1), t_updatedAt = isoformat (now e 2),
                     t_context = (case a_context a of None \<Rightarrow> JObj [] | Some c \<Rightarrow> c)\<rparr>;
            notification = \<lparr>m_id = generate_id (now e 3) (uuid4 e 1),
                     m_from = t_createdBy task, m_to = t_assignedTo task,
                     m_content = new_task_prefix @ quote @ t_title task @ quote @ '' (''
                                 @ t_priority task @ '')'',
                     m_timestamp = isoformat (now e 4), m_read = False\<rparr>
        in (Inr (TaskCreated (t_id task)),
            st\<lparr>tasks := tasks st @ [task], messages := messages st @ [notification]\<rparr>)))))"

definition get_tasks :: "arguments \<Rightarrow> store \<Rightarrow> outcome" where
  "get_tasks a st =
     (case a_agent a of None \<Rightarrow> (Inl (KeyError ''agent''), st) | Some agent \<Rightarrow>
        let filter_type = (case a_filter a of None \<Rightarrow> ''assigned'' | Some f \<Rightarrow> f);
            status_filter = (case a_status a of None \<Rightarrow> ''all'' | Some s \<Rightarrow> s);
            filtered = tasks st;
            filtered = (if filter_type = ''assigned''
                        then filter (\<lambda>t. t_assignedTo t = agent) filtered
                        else if filter_type = ''created''
                        then filter (\<lambda>t. t_createdBy t = agent) filtered
                        else filtered);
            filtered = (if status_filter \<noteq> ''all''
                        then filter (\<lambda>t. t_status t = status_filter) filtered
                        else filtered)
        in (Inr (TaskList (length filtered) filtered), st))"

text \<open>
  \<^verbatim>\<open>next((t for t in tasks if t["id"] == task_id), None)\<close> is the first task with
  that id; the handler then mutates that dictionary in place, which replaces the
  first matching element of the list.
\<close>

fun replace_first :: "('a \<Rightarrow> bool) \<Rightarrow> 'a \<Rightarrow> 'a list \<Rightarrow> 'a list" where
  "replace_first P y [] = []"
| "replace_first P y (x # xs) = (if P x then y # xs else x # replace_first P y xs)"

definition update_task :: "env \<Rightarrow> arguments \<Rightarrow> store \<Rightarrow> outcome" where
  "update_task e a st =
     (case a_taskId a of None \<Rightarrow> (Inl (KeyError ''taskId''), st) | Some task_id \<Rightarrow>
     (case find (\<lambda>t. t_id t = task_id) (tasks st) of
        None \<Rightarrow> (Inr (ErrorPayload ''Task not found''), st)
      | Some found \<Rightarrow>
        let task = (case a_status a of None \<Rightarrow> found | Some s \<Rightarrow> found\<lparr>t_status := s\<rparr>);
            task = task\<lparr>t_updatedAt := isoformat (now e 0)\<rparr>;
            st = st\<lparr>tasks := replace_first (\<lambda>t. t_id t = task_id) task (tasks st)\<rparr>;
            st = (if a_status a = Some ''completed''
                  then let notes = (case a_notes a of None \<Rightarrow> '''' | Some n \<Rightarrow> n)
                       in st\<lparr>messages := messages st @
                            [\<lparr>m_id = generate_id (now e 1) (uuid4 e 0),
                              m_from = t_assignedTo task, m_to = t_createdBy task,
                              m_content = completed_prefix @ quote @ t_title task @ quote
                                          @ (if notes \<noteq> '''' then '' - '' @ notes else ''''),
                              m_timestamp = isoformat (now e 2), m_read = False\<rparr>]\<rparr>
                  else st)
        in (Inr (TaskUpdated task), st)))"

subsection \<open>Shared context and presence\<close>

definition update_context :: "env \<Rightarrow> arguments \<Rightarrow> store \<Rightarrow> outcome" where
  "update_context e a st =
     (let c = shared_context st;
          c = (case a_currentBranch a of None \<Rightarrow> c | Some v \<Rightarrow> c\<lparr>c_currentBranch := v\<rparr>);
          c = (case a_activeFiles a of None \<Rightarrow> c | Some v \<Rightarrow> c\<lparr>c_activeFiles := v\<rparr>);
          c = (case a_recentChanges a of None \<Rightarrow> c | Some v \<Rightarrow> c\<lparr>c_recentChanges := v\<rparr>);
          c = (case a_notes a of None \<Rightarrow> c | Some v \<Rightarrow> c\<lparr>c_notes := v\<rparr>);
          c = c\<lparr>c_lastUpdated := isoformat (now e 0)\<rparr>
      in (Inr (ContextUpdated c), st\<lparr>shared_context := c\<rparr>))"

definition get_context :: "store \<Rightarrow> outcome" where
  "get_context st = (Inr (ContextPayload (shared_context st)), st)"

definition announce_presence :: "env \<Rightarrow> arguments \<Rightarrow> store \<Rightarrow> outcome" where
  "announce_presence e a st =
     (let new_id = generate_id (now e 0) (uuid4 e 0) in
      case a_agent a of None \<Rightarrow> (Inl (KeyError ''agent''), st) | Some agent \<Rightarrow>
     (case a_status a of None \<Rightarrow> (Inl (KeyError ''status''), st) | Some status \<Rightarrow>
        (Inr Success,
         st\<lparr>messages := messages st @
              [\<lparr>m_id = new_id, m_from = agent, m_to = ''all'',
                m_content = online_prefix @ agent @ '' online: '' @ status,
                m_timestamp = isoformat (now e 1), m_read = False\<rparr>]\<rparr>)))"

subsection \<open>The dispatcher\<close>

definition call_tool :: "env \<Rightarrow> string \<Rightarrow> arguments \<Rightarrow> store \<Rightarrow> outcome" where
  "call_tool e name a st =
     (if name = ''send_message'' then send_message e a st
      else if name = ''get_messages'' then get_messages a st
      else if name = ''mark_messages_read'' then mark_messages_read a st
      else if name = ''create_task'' then create_task e a st
      else if name = ''get_tasks'' then get_tasks a st
      else if name = ''update_task'' then update_task e a st
      else if name = ''update_context'' then update_context e a st
      else if name = ''get_context'' then get_context st
      else if name = ''announce_presence'' then announce_presence e a st
      else (Inr (ErrorPayload (''Unknown tool: '' @ name)), st))"

text \<open>A session: the calls the server receives, each with its environment, in order.\<close>

fun run :: "(env \<times> string \<times> arguments) list \<Rightarrow> store \<Rightarrow> store" where
  "run [] st = st"
| "run ((e, name, a) # calls) st = run calls (snd (call_tool e name a st))"

section \<open>Notions used in the proofs\<close>

text \<open>
  What the marking loop does to the message list, and the three ways in which one call
  of the handler can change the message list: not at all, by appending one message, or
  by marking.
\<close>

definition marks :: "string list \<Rightarrow> message list \<Rightarrow> message list" where
  "marks ids ms = map (\<lambda>m. if m_id m \<in> set ids then m\<lparr>m_read := True\<rparr> else m) ms"

definition msg_step :: "message list \<Rightarrow> message list \<Rightarrow> bool" where
  "msg_step ms ms' \<longleftrightarrow> ms' = ms \<or> (\<exists>m. ms' = ms @ [m]) \<or> (\<exists>ids. ms' = marks ids ms)"

text \<open>An id list either stays as it is or grows by one of the given fresh ids.\<close>

definition grows_by :: "string list \<Rightarrow> string list \<Rightarrow> string list \<Rightarrow> bool" where
  "grows_by fresh old new \<longleftrightarrow> new = old \<or> (\<exists>i\<in>set fresh. new = old @ [i])"

section \<open>A sample session\<close>

text \<open>
  Concrete values on which the theorems below are instantiated: two calls' environments
  (in each the successive readings of the clock are a microsecond apart and fall in the
  same millisecond, and the UUIDs are version-4 ones), a store holding three messages
  and two tasks, and a \<^verbatim>\<open>create_task\<close> request.
\<close>

definition sample_clock :: "nat \<Rightarrow> datetime" where
  "sample_clock k = \<lparr>isoformat = ''2025-11-04T10:00:00.12345'' @ [digit_char (k mod 10)],
                      timestamp_ms = 1762250400123\<rparr>"

definition sample_env :: env where
  "sample_env = \<lparr>now = sample_clock,
                  uuid4 = (\<lambda>k. if k = 0 then 0xf3a91c5e7d2b44f08e1a6b2f9d0c7e15
                                else 0x0b5d2e8841c74c3ab6f277aa10e4c9d3)\<rparr>"

definition later_clock :: "nat \<Rightarrow> datetime" where
  "later_clock k = \<lparr>isoformat = ''2025-11-04T10:00:07.65432'' @ [digit_char (k mod 10)],
                     timestamp_ms = 1762250407654\<rparr>"

definition later_env :: env where
  "later_env = \<lparr>now = later_clock,
                 uuid4 = (\<lambda>k. if k = 0 then 0x6c1f0a2b93d84e57a4b0c5d6e7f80912
                               else 0x9e8d7c6b5a4f4321b0a1928374655647)\<rparr>"

definition deploy_request :: arguments where
  "deploy_request = no_arguments\<lparr>a_title := Some ''Deploy'', a_description := Some ''ship it'',
                     a_assignedTo := Some ''codex'', a_createdBy := Some ''cascade''\<rparr>"

definition msg_hello :: message where
  "msg_hello = \<lparr>m_id = ''1762250399001-5c0de1234'', m_from = ''cascade'', m_to = ''codex'',
                 m_content = ''hello'', m_timestamp = ''2025-11-04T09:59:59.001000'', m_read = False\<rparr>"

definition msg_reply :: message where
  "msg_reply = \<lparr>m_id = ''1762250399502-77ab03f19'', m_from = ''codex'', m_to = ''cascade'',
                 m_content = ''hi'', m_timestamp = ''2025-11-04T09:59:59.502000'', m_read = True\<rparr>"

definition msg_notice :: message where
  "msg_notice = \<lparr>m_id = ''1762250399900-e41a9c2d0'', m_from = ''cascade'', m_to = ''all'',
                  m_content = ''standup at noon'', m_timestamp = ''2025-11-04T09:59:59.900000'',
                  m_read = True\<rparr>"

definition task_parser :: task where
  "task_parser = \<lparr>t_id = ''1762250399100-a0b1c2d3e'', t_title = ''Fix parser'',
                   t_description = ''handle empty input'', t_assignedTo = ''codex'',
                   t_createdBy = ''cascade'', t_status = ''pending'', t_priority = ''high'',
                   t_createdAt = ''2025-11-04T09:59:59.100000'',
                   t_updatedAt = ''2025-11-04T09:59:59.100001'', t_context = JObj []\<rparr>"

definition task_docs :: task where
  "task_docs = \<lparr>t_id = ''1762250399200-0f9e8d7c6'', t_title = ''Write docs'',
                 t_description = ''README'', t_assignedTo = ''cascade'',
                 t_createdBy = ''codex'', t_status = ''completed'', t_priority = ''medium'',
                 t_createdAt = ''2025-11-04T09:59:59.200000'',
                 t_updatedAt = ''2025-11-04T09:59:59.700000'', t_context = JObj []\<rparr>"

definition sample_store :: store where
  "sample_store = \<lparr>messages = [msg_hello, msg_reply, msg_notice],
                    tasks = [task_parser, task_docs],
                    shared_context = \<lparr>c_currentBranch = ''main'', c_activeFiles = [''server.py''],
                       c_recentChanges = [], c_notes = ''a'',
                       c_lastUpdated = ''2025-11-04T09:00:00.000000''\<rparr>\<rparr>"

section \<open>Verified properties\<close>

lemmas sample_defs =
  sample_store_def msg_hello_def msg_reply_def msg_notice_def task_parser_def task_docs_def
  no_arguments_def sample_env_def sample_clock_def

subsection \<open>Listing messages\<close>

text \<open>
  Claim C5. For every agent name and every store, \<^verbatim>\<open>get_messages\<close> returns, in
  insertion order, exactly the messages whose recipient is the agent or the broadcast
  value \<^verbatim>\<open>all\<close>, restricted to the unread ones when \<^verbatim>\<open>unreadOnly\<close> is true,
  together with their count, and the store is returned as it was.
\<close>

theorem get_messages_spec:
  assumes "a_agent a = Some agent"
  shows "call_tool e ''get_messages'' a st =
           (let msgs = filter (\<lambda>m. (m_to m = agent \<or> m_to m = ''all'')
                                    \<and> (a_unreadOnly a = Some True \<longrightarrow> \<not> m_read m)) (messages st)
            in (Inr (MessageList (length msgs) msgs), st))"
proof (cases "a_unreadOnly a")
  case None
  with assms show ?thesis
    by (simp add: call_tool_def get_messages_def)
next
  case (Some b)
  with assms show ?thesis
    by (cases b) (simp_all add: call_tool_def get_messages_def Let_def)
qed

theorem get_messages_spec_witness:
  "call_tool sample_env ''get_messages''
      (no_arguments\<lparr>a_agent := Some ''codex'', a_unreadOnly := Some True\<rparr>) sample_store
     = (Inr (MessageList 1 [msg_hello]), sample_store)
   \<and> call_tool sample_env ''get_messages'' (no_arguments\<lparr>a_agent := Some ''codex''\<rparr>) sample_store
     = (Inr (MessageList 2 [msg_hello, msg_notice]), sample_store)"
  using get_messages_spec [of "no_arguments\<lparr>a_agent := Some ''codex'', a_unreadOnly := Some True\<rparr>"
                              "''codex''" sample_env sample_store]
        get_messages_spec [of "no_arguments\<lparr>a_agent := Some ''codex''\<rparr>"
                              "''codex''" sample_env sample_store]
  by (simp add: sample_defs)

subsection \<open>Updating an unknown task\<close>

lemma find_None_iff_ids: "find P xs = None \<longleftrightarrow> (\<forall>x\<in>set xs. \<not> P x)"
  by (induction xs) auto

text \<open>
  Claim C8. An \<^verbatim>\<open>update_task\<close> call whose \<^verbatim>\<open>taskId\<close> matches no stored task
  returns the error payload \<^verbatim>\<open>{"error": "Task not found"}\<close> as an ordinary result
  (no exception), and messages, tasks and shared context are all exactly as before.
\<close>

theorem update_task_not_found:
  assumes "a_taskId a = Some task_id"
    and "\<forall>t\<in>set (tasks st). t_id t \<noteq> task_id"
  shows "call_tool e ''update_task'' a st = (Inr (ErrorPayload ''Task not found''), st)"
proof -
  have "find (\<lambda>t. t_id t = task_id) (tasks st) = None"
    using assms(2) by (simp add: find_None_iff_ids)
  with assms(1) show ?thesis
    by (simp add: call_tool_def update_task_def)
qed

theorem update_task_not_found_witness:
  "call_tool sample_env ''update_task''
      (no_arguments\<lparr>a_taskId := Some ''1762250399100-missing'', a_status := Some ''completed''\<rparr>)
      sample_store
     = (Inr (ErrorPayload ''Task not found''), sample_store)"
  using update_task_not_found
          [of "no_arguments\<lparr>a_taskId := Some ''1762250399100-missing'', a_status := Some ''completed''\<rparr>"
              "''1762250399100-missing''" sample_store sample_env]
  by (simp add: sample_defs)

subsection \<open>Listing tasks\<close>

text \<open>
  Claim C9. \<^verbatim>\<open>get_tasks\<close> returns, in insertion order, exactly the tasks that pass
  the role filter (assignee is the agent for \<^verbatim>\<open>assigned\<close>, creator is the agent for
  \<^verbatim>\<open>created\<close>, none for \<^verbatim>\<open>all\<close>; \<^verbatim>\<open>assigned\<close> when the argument is absent)
  and whose status equals the status argument unless that is \<^verbatim>\<open>all\<close> (the default),
  together with their count; the store is unchanged. In particular, with
  \<^verbatim>\<open>assigned\<close> and \<^verbatim>\<open>pending\<close> every returned task is assigned to the agent and pending.
\<close>

theorem get_tasks_spec:
  assumes "a_agent a = Some agent"
  shows "let filter_type = (case a_filter a of None \<Rightarrow> ''assigned'' | Some f \<Rightarrow> f);
             status_filter = (case a_status a of None \<Rightarrow> ''all'' | Some s \<Rightarrow> s);
             ts = filter (\<lambda>t. (filter_type = ''assigned'' \<longrightarrow> t_assignedTo t = agent)
                             \<and> (filter_type = ''created'' \<longrightarrow> t_createdBy t = agent)
                             \<and> (status_filter \<noteq> ''all'' \<longrightarrow> t_status t = status_filter)) (tasks st)
         in call_tool e ''get_tasks'' a st = (Inr (TaskList (length ts) ts), st)
            \<and> (filter_type = ''assigned'' \<and> status_filter = ''pending''
                 \<longrightarrow> (\<forall>t\<in>set ts. t_assignedTo t = agent \<and> t_status t = ''pending''))"
  using assms by (auto simp add: call_tool_def get_tasks_def Let_def)

theorem get_tasks_spec_witness:
  "call_tool sample_env ''get_tasks''
      (no_arguments\<lparr>a_agent := Some ''codex'', a_filter := Some ''assigned'', a_status := Some ''pending''\<rparr>)
      sample_store
     = (Inr (TaskList 1 [task_parser]), sample_store)"
  using get_tasks_spec
          [of "no_arguments\<lparr>a_agent := Some ''codex'', a_filter := Some ''assigned'', a_status := Some ''pending''\<rparr>"
              "''codex''" sample_store sample_env]
  by (simp add: sample_defs Let_def)

text \<open>
  Claim C10. A \<^verbatim>\<open>filter\<close> value outside \<^verbatim>\<open>assigned\<close>, \<^verbatim>\<open>created\<close>, \<^verbatim>\<open>all\<close>
  applies no role filter: the call behaves exactly as with \<^verbatim>\<open>all\<close> and returns every
  task that passes the status restriction alone.
\<close>

theorem get_tasks_unknown_filter:
  assumes "a_agent a = Some agent"
    and "a_filter a = Some f"
    and "f \<notin> {''assigned'', ''created'', ''all''}"
  shows "call_tool e ''get_tasks'' a st = call_tool e ''get_tasks'' (a\<lparr>a_filter := Some ''all''\<rparr>) st
         \<and> call_tool e ''get_tasks'' a st =
             (let ts = (case a_status a of None \<Rightarrow> tasks st
                        | Some s \<Rightarrow> if s \<noteq> ''all'' then filter (\<lambda>t. t_status t = s) (tasks st) else tasks st)
              in (Inr (TaskList (length ts) ts), st))"
  using assms by (auto simp add: call_tool_def get_tasks_def Let_def split: option.splits)

theorem get_tasks_unknown_filter_witness:
  "call_tool sample_env ''get_tasks''
      (no_arguments\<lparr>a_agent := Some ''codex'', a_filter := Some ''mine''\<rparr>) sample_store
     = (Inr (TaskList 2 [task_parser, task_docs]), sample_store)
   \<and> call_tool sample_env ''get_tasks''
      (no_arguments\<lparr>a_agent := Some ''codex'', a_filter := Some ''all''\<rparr>) sample_store
     = (Inr (TaskList 2 [task_parser, task_docs]), sample_store)"
  using get_tasks_unknown_filter
          [of "no_arguments\<lparr>a_agent := Some ''codex'', a_filter := Some ''mine''\<rparr>"
              "''codex''" "''mine''" sample_env sample_store]
  by (simp add: sample_defs call_tool_def get_tasks_def Let_def)

subsection \<open>Updating the shared context\<close>

text \<open>
  Claim C7. \<^verbatim>\<open>update_context\<close> overwrites each of \<^verbatim>\<open>currentBranch\<close>,
  \<^verbatim>\<open>activeFiles\<close>, \<^verbatim>\<open>recentChanges\<close>, \<^verbatim>\<open>notes\<close> with the argument's value when
  the key is present and keeps the stored value when it is absent; \<^verbatim>\<open>lastUpdated\<close>
  becomes the current clock reading on every call.
\<close>

theorem update_context_frame:
  "call_tool e ''update_context'' a st =
     (let c = shared_context st;
          c' = \<lparr>c_currentBranch = (case a_currentBranch a of None \<Rightarrow> c_currentBranch c | Some v \<Rightarrow> v),
                c_activeFiles = (case a_activeFiles a of None \<Rightarrow> c_activeFiles c | Some v \<Rightarrow> v),
                c_recentChanges = (case a_recentChanges a of None \<Rightarrow> c_recentChanges c | Some v \<Rightarrow> v),
                c_notes = (case a_notes a of None \<Rightarrow> c_notes c | Some v \<Rightarrow> v),
                c_lastUpdated = isoformat (now e 0)\<rparr>
      in (Inr (ContextUpdated c'), st\<lparr>shared_context := c'\<rparr>))"
  by (simp add: call_tool_def update_context_def Let_def split: option.splits)

theorem update_context_frame_witness:
  "shared_context (run
      [(sample_env, ''update_context'', no_arguments\<lparr>a_notes := Some ''b''\<rparr>),
       (later_env, ''update_context'', no_arguments\<lparr>a_currentBranch := Some ''dev''\<rparr>)]
      sample_store)
   = \<lparr>c_currentBranch = ''dev'', c_activeFiles = [''server.py''], c_recentChanges = [],
      c_notes = ''b'', c_lastUpdated = ''2025-11-04T10:00:07.654320''\<rparr>"
  using update_context_frame [of sample_env "no_arguments\<lparr>a_notes := Some ''b''\<rparr>" sample_store]
    update_context_frame [of later_env "no_arguments\<lparr>a_currentBranch := Some ''dev''\<rparr>"
      "snd (call_tool sample_env ''update_context'' (no_arguments\<lparr>a_notes := Some ''b''\<rparr>) sample_store)"]
  by (simp add: sample_defs later_env_def later_clock_def digit_char_def Let_def)

subsection \<open>Marking messages as read\<close>

lemma mark_loop_eq:
  "mark_loop ids ms marked =
     (map (\<lambda>m. if m_id m \<in> set ids then m\<lparr>m_read := True\<rparr> else m) ms,
      marked + length (filter (\<lambda>m. m_id m \<in> set ids) ms))"
  by (induction ms arbitrary: marked) simp_all

lemma mark_map_idem:
  "map (\<lambda>m. if m_id m \<in> set ids then m\<lparr>m_read := True\<rparr> else m)
     (map (\<lambda>m. if m_id m \<in> set ids then m\<lparr>m_read := True\<rparr> else m) ms)
   = map (\<lambda>m. if m_id m \<in> set ids then m\<lparr>m_read := True\<rparr> else m) ms"
  by (induction ms) simp_all

lemma mark_count_same:
  "length (filter (\<lambda>m. m_id m \<in> set ids)
     (map (\<lambda>m. if m_id m \<in> set ids then m\<lparr>m_read := True\<rparr> else m) ms))
   = length (filter (\<lambda>m. m_id m \<in> set ids) ms)"
  by (induction ms) simp_all

text \<open>
  Claim C1, as amended. \<^verbatim>\<open>mark_messages_read\<close> sets the read flag of exactly the
  stored messages whose id is among the given ids (ids that match nothing are ignored)
  and returns as \<^verbatim>\<open>markedRead\<close> the number of those messages, whatever their read
  flag was before. A second call with the same ids leaves the store as the first call
  left it and returns the same number again.
\<close>

theorem mark_messages_read_counts_matches:
  assumes "a_messageIds a = Some ids"
  shows "let hit = (\<lambda>m. m_id m \<in> set ids);
             st' = st\<lparr>messages := map (\<lambda>m. if hit m then m\<lparr>m_read := True\<rparr> else m) (messages st)\<rparr>;
             n = length (filter hit (messages st))
         in call_tool e ''mark_messages_read'' a st = (Inr (MarkedRead n), st')
            \<and> call_tool e' ''mark_messages_read'' a st' = (Inr (MarkedRead n), st')"
proof -
  define ms' where "ms' = map (\<lambda>m. if m_id m \<in> set ids then m\<lparr>m_read := True\<rparr> else m) (messages st)"
  define n where "n = length (filter (\<lambda>m. m_id m \<in> set ids) (messages st))"
  have first: "mark_loop ids (messages st) 0 = (ms', n)"
    unfolding ms'_def n_def by (simp only: mark_loop_eq add_0)
  have second: "mark_loop ids ms' 0 = (ms', n)"
    unfolding ms'_def n_def by (simp only: mark_loop_eq mark_map_idem mark_count_same add_0)
  have "mark_messages_read a st = (Inr (MarkedRead n), st\<lparr>messages := ms'\<rparr>)"
    using assms first by (simp add: mark_messages_read_def)
  moreover have "mark_messages_read a (st\<lparr>messages := ms'\<rparr>) = (Inr (MarkedRead n), st\<lparr>messages := ms'\<rparr>)"
    using assms second by (simp add: mark_messages_read_def)
  ultimately show ?thesis
    unfolding ms'_def n_def by (simp add: call_tool_def Let_def)
qed

theorem mark_messages_read_counts_matches_witness:
  "call_tool sample_env ''mark_messages_read''
     (no_arguments\<lparr>a_messageIds := Some [m_id msg_hello, m_id msg_reply, ''1762250399999-000000000'']\<rparr>)
     sample_store
   = (Inr (MarkedRead 2),
      sample_store\<lparr>messages := [msg_hello\<lparr>m_read := True\<rparr>, msg_reply, msg_notice]\<rparr>)"
  using mark_messages_read_counts_matches
     [of "no_arguments\<lparr>a_messageIds := Some [m_id msg_hello, m_id msg_reply, ''1762250399999-000000000'']\<rparr>"
         "[m_id msg_hello, m_id msg_reply, ''1762250399999-000000000'']" sample_store sample_env sample_env]
  by (simp add: sample_defs Let_def)

text \<open>
  The claim as stated fails: with one unread message, one message already read and one
  unknown id, the first call reports 2 (the message already read is counted), and the
  second call with the same ids reports 2 again instead of 0.
\<close>

theorem mark_messages_read_recount_counterexample:
  "fst (call_tool sample_env ''mark_messages_read''
          (no_arguments\<lparr>a_messageIds := Some [m_id msg_hello, m_id msg_reply, ''1762250399999-000000000'']\<rparr>)
          sample_store) = Inr (MarkedRead 2)
   \<and> m_read msg_reply
   \<and> fst (call_tool sample_env ''mark_messages_read''
          (no_arguments\<lparr>a_messageIds := Some [m_id msg_hello, m_id msg_reply, ''1762250399999-000000000'']\<rparr>)
          (snd (call_tool sample_env ''mark_messages_read''
             (no_arguments\<lparr>a_messageIds := Some [m_id msg_hello, m_id msg_reply, ''1762250399999-000000000'']\<rparr>)
             sample_store))) = Inr (MarkedRead 2)"
  by (simp add: call_tool_def mark_messages_read_def sample_defs)

subsection \<open>The read flag never goes back\<close>

lemma step_send: "msg_step (messages st) (messages (snd (send_message e a st)))"
  by (simp add: send_message_def msg_step_def Let_def split: option.splits)

lemma step_get_messages: "msg_step (messages st) (messages (snd (get_messages a st)))"
  by (simp add: get_messages_def msg_step_def Let_def split: option.splits)

lemma step_mark: "msg_step (messages st) (messages (snd (mark_messages_read a st)))"
  by (auto simp add: mark_messages_read_def msg_step_def mark_loop_eq marks_def split: option.splits)

lemma step_create: "msg_step (messages st) (messages (snd (create_task e a st)))"
  by (simp add: create_task_def msg_step_def Let_def split: option.splits)

lemma step_get_tasks: "msg_step (messages st) (messages (snd (get_tasks a st)))"
  by (simp add: get_tasks_def msg_step_def Let_def split: option.splits)

lemma step_update_task: "msg_step (messages st) (messages (snd (update_task e a st)))"
  by (simp add: update_task_def msg_step_def Let_def split: option.splits)

lemma step_update_context: "msg_step (messages st) (messages (snd (update_context e a st)))"
  by (simp add: update_context_def msg_step_def Let_def)

lemma step_get_context: "msg_step (messages st) (messages (snd (get_context st)))"
  by (simp add: get_context_def msg_step_def)

lemma step_announce: "msg_step (messages st) (messages (snd (announce_presence e a st)))"
  by (simp add: announce_presence_def msg_step_def Let_def split: option.splits)

lemma messages_step_cases: "msg_step (messages st) (messages (snd (call_tool e name a st)))"
  unfolding call_tool_def
  using step_send step_get_messages step_mark step_create step_get_tasks step_update_task
    step_update_context step_get_context step_announce
  by (simp add: msg_step_def)

lemma read_step:
  assumes "i < length (messages st)" and "m_read (messages st ! i)"
  shows "i < length (messages (snd (call_tool e name a st)))
         \<and> m_id (messages (snd (call_tool e name a st)) ! i) = m_id (messages st ! i)
         \<and> m_read (messages (snd (call_tool e name a st)) ! i)"
  using messages_step_cases [of st e name a] assms
  by (auto simp add: msg_step_def marks_def nth_append)

text \<open>
  Claim C4. Along every sequence of calls of the handler, from every store, a message
  that is read stays in its place in the message list, keeps its id and stays read.
\<close>

theorem read_monotonic:
  assumes "i < length (messages st)" and "m_read (messages st ! i)"
  shows "i < length (messages (run calls st))
         \<and> m_id (messages (run calls st) ! i) = m_id (messages st ! i)
         \<and> m_read (messages (run calls st) ! i)"
  using assms
proof (induction calls arbitrary: st)
  case Nil
  then show ?case by simp
next
  case (Cons c calls)
  obtain e name a where c: "c = (e, name, a)"
    by (cases c) auto
  let ?st = "snd (call_tool e name a st)"
  from read_step [OF Cons.prems, of e name a]
  have step: "i < length (messages ?st)" "m_id (messages ?st ! i) = m_id (messages st ! i)"
    "m_read (messages ?st ! i)"
    by simp_all
  from Cons.IH [OF step(1) step(3)] step(2) c show ?case
    by simp
qed

theorem read_monotonic_witness:
  "1 < length (messages (run
        [(sample_env, ''send_message'',
            no_arguments\<lparr>a_from := Some ''codex'', a_to := Some ''cascade'', a_content := Some ''ok''\<rparr>),
         (sample_env, ''mark_messages_read'', no_arguments\<lparr>a_messageIds := Some [m_id msg_hello]\<rparr>)]
        sample_store))
   \<and> m_read (messages (run
        [(sample_env, ''send_message'',
            no_arguments\<lparr>a_from := Some ''codex'', a_to := Some ''cascade'', a_content := Some ''ok''\<rparr>),
         (sample_env, ''mark_messages_read'', no_arguments\<lparr>a_messageIds := Some [m_id msg_hello]\<rparr>)]
        sample_store) ! 1)"
  using read_monotonic [of 1 sample_store
        "[(sample_env, ''send_message'',
            no_arguments\<lparr>a_from := Some ''codex'', a_to := Some ''cascade'', a_content := Some ''ok''\<rparr>),
         (sample_env, ''mark_messages_read'', no_arguments\<lparr>a_messageIds := Some [m_id msg_hello]\<rparr>)]"]
  by (simp add: sample_store_def msg_reply_def)

subsection \<open>The identifier generator\<close>

text \<open>Decimal rendering is injective, and ordered like the numbers at equal length.\<close>

lemma digit_codes:
  "of_char (digit_char 0) = (48 :: nat)" "of_char (digit_char 1) = (49 :: nat)"
  "of_char (digit_char 2) = (50 :: nat)" "of_char (digit_char 3) = (51 :: nat)"
  "of_char (digit_char 4) = (52 :: nat)" "of_char (digit_char 5) = (53 :: nat)"
  "of_char (digit_char 6) = (54 :: nat)" "of_char (digit_char 7) = (55 :: nat)"
  "of_char (digit_char 8) = (56 :: nat)" "of_char (digit_char 9) = (57 :: nat)"
  by (simp_all add: digit_char_def)

lemma small_cases:
  assumes "d < (10::nat)"
  shows "d = 0 \<or> d = 1 \<or> d = 2 \<or> d = 3 \<or> d = 4 \<or> d = 5 \<or> d = 6 \<or> d = 7 \<or> d = 8 \<or> d = 9"
  using assms by arith

lemma digit_char_code:
  assumes "d < 10"
  shows "of_char (digit_char d) = (48 + d :: nat)"
  using small_cases [OF assms] digit_codes by fastforce

lemma digit_char_inj: "a < 10 \<Longrightarrow> b < 10 \<Longrightarrow> digit_char a = digit_char b \<Longrightarrow> a = b"
  by (metis digit_char_code add_left_cancel)

lemma digit_char_less: "a < 10 \<Longrightarrow> b < 10 \<Longrightarrow> a < b \<Longrightarrow> digit_char a < digit_char b"
  using digit_char_code [of a] digit_char_code [of b] by (simp add: less_char_def)

lemma digit_char_not_minus:
  assumes "d < 10"
  shows "digit_char d \<noteq> CHR ''-''"
proof
  assume "digit_char d = CHR ''-''"
  then have "of_char (digit_char d) = (45 :: nat)"
    by simp
  with digit_char_code [OF assms] show False
    by simp
qed

lemma str_nat_small: "n < 10 \<Longrightarrow> str_nat n = [digit_char n]"
  by (subst str_nat.simps) simp

lemma str_nat_big: "\<not> n < 10 \<Longrightarrow> str_nat n = str_nat (n div 10) @ [digit_char (n mod 10)]"
  by (subst str_nat.simps) simp

lemma str_nat_nonempty: "str_nat n \<noteq> []"
  by (subst str_nat.simps) simp

lemma str_nat_length_big:
  assumes "\<not> n < 10"
  shows "2 \<le> length (str_nat n)"
proof -
  obtain c cs where "str_nat (n div 10) = c # cs"
    using str_nat_nonempty [of "n div 10"] by (cases "str_nat (n div 10)") auto
  then have "str_nat n = c # cs @ [digit_char (n mod 10)]"
    by (simp only: str_nat_big [OF assms] append_Cons)
  then show ?thesis
    by simp
qed

lemma str_nat_digits: "c \<in> set (str_nat n) \<Longrightarrow> \<exists>d<10. c = digit_char d"
proof (induction n rule: str_nat.induct)
  case (1 n)
  show ?case
  proof (cases "n < 10")
    case True
    with "1.prems" show ?thesis by (auto simp add: str_nat_small)
  next
    case False
    with "1.prems" have "c \<in> set (str_nat (n div 10)) \<or> c = digit_char (n mod 10)"
      by (auto simp add: str_nat_big)
    then show ?thesis
    proof
      assume "c \<in> set (str_nat (n div 10))"
      with "1.IH" False show ?thesis by simp
    next
      assume "c = digit_char (n mod 10)"
      moreover have "n mod 10 < 10" by simp
      ultimately show ?thesis by blast
    qed
  qed
qed

lemma str_nat_inj: "str_nat m = str_nat n \<Longrightarrow> m = n"
proof (induction m arbitrary: n rule: str_nat.induct)
  case (1 m)
  show ?case
  proof (cases "m < 10")
    case m: True
    note sm = str_nat_small [OF m]
    show ?thesis
    proof (cases "n < 10")
      case True
      from "1.prems" have "[digit_char m] = [digit_char n]"
        unfolding sm str_nat_small [OF True] .
      then have "digit_char m = digit_char n"
        by simp
      with m True show ?thesis
        by (rule digit_char_inj)
    next
      case False
      from "1.prems" have "length (str_nat n) = length [digit_char m]"
        unfolding sm by (rule arg_cong [OF sym])
      then have "length (str_nat n) = 1"
        by simp
      with str_nat_length_big [OF False] show ?thesis
        by simp
    qed
  next
    case m: False
    note bm = str_nat_big [OF m]
    show ?thesis
    proof (cases "n < 10")
      case True
      from "1.prems" have "length (str_nat m) = length [digit_char n]"
        unfolding str_nat_small [OF True] by (rule arg_cong)
      then have "length (str_nat m) = 1"
        by simp
      with str_nat_length_big [OF m] show ?thesis
        by simp
    next
      case False
      from "1.prems"
      have "str_nat (m div 10) @ [digit_char (m mod 10)] = str_nat (n div 10) @ [digit_char (n mod 10)]"
        unfolding bm str_nat_big [OF False] .
      then have eq: "str_nat (m div 10) = str_nat (n div 10)" "digit_char (m mod 10) = digit_char (n mod 10)"
        by simp_all
      from "1.IH" [OF m eq(1)] have dv: "m div 10 = n div 10" .
      have md: "m mod 10 = n mod 10"
        by (rule digit_char_inj [OF _ _ eq(2)]) simp_all
      have "m = m div 10 * 10 + m mod 10"
        by simp
      also have "\<dots> = n div 10 * 10 + n mod 10"
        by (simp only: dv md)
      also have "\<dots> = n"
        by simp
      finally show ?thesis .
    qed
  qed
qed

lemma str_nat_no_minus: "CHR ''-'' \<notin> set (str_nat n)"
proof
  assume "CHR ''-'' \<in> set (str_nat n)"
  then obtain d where "d < 10" and "CHR ''-'' = digit_char d"
    using str_nat_digits by blast
  with digit_char_not_minus [of d] show False
    by simp
qed

lemma str_nat_not_minus_Cons: "str_nat n \<noteq> CHR ''-'' # s"
  using str_nat_no_minus [of n] by auto

lemma str_int_inj:
  assumes "str_int i = str_int j"
  shows "i = j"
proof (cases "i < 0")
  case i: True
  show ?thesis
  proof (cases "j < 0")
    case True
    with i assms have "str_nat (nat (- i)) = str_nat (nat (- j))"
      by (simp add: str_int_def)
    then have "nat (- i) = nat (- j)"
      by (rule str_nat_inj)
    with i True show ?thesis by simp
  next
    case False
    with i assms have "str_nat (nat j) = CHR ''-'' # str_nat (nat (- i))"
      by (simp add: str_int_def)
    with str_nat_not_minus_Cons show ?thesis by blast
  qed
next
  case i: False
  show ?thesis
  proof (cases "j < 0")
    case True
    with i assms have "str_nat (nat i) = CHR ''-'' # str_nat (nat (- j))"
      by (simp add: str_int_def)
    with str_nat_not_minus_Cons show ?thesis by blast
  next
    case False
    with i assms have "str_nat (nat i) = str_nat (nat j)"
      by (simp add: str_int_def)
    then have "nat i = nat j"
      by (rule str_nat_inj)
    with i False show ?thesis by simp
  qed
qed

lemma length_hex: "length (hex u) = 32"
  by (simp add: hex_def)

lemma length_hex9: "length (take 9 (hex u)) = 9"
  by (simp add: length_hex)

lemma generate_id_eq_iff:
  "generate_id d u = generate_id d' u'
     \<longleftrightarrow> timestamp_ms d = timestamp_ms d' \<and> take 9 (hex u) = take 9 (hex u')"
proof
  assume eq: "generate_id d u = generate_id d' u'"
  have "length (str_int (timestamp_ms d) @ ''-'') + 9 = length (generate_id d u)"
    "length (str_int (timestamp_ms d') @ ''-'') + 9 = length (generate_id d' u')"
    by (simp_all add: generate_id_def length_hex)
  with eq have len: "length (str_int (timestamp_ms d) @ ''-'') = length (str_int (timestamp_ms d') @ ''-'')"
    by simp
  from eq have "(str_int (timestamp_ms d) @ ''-'') @ take 9 (hex u)
      = (str_int (timestamp_ms d') @ ''-'') @ take 9 (hex u')"
    by (simp add: generate_id_def)
  with len have "str_int (timestamp_ms d) @ ''-'' = str_int (timestamp_ms d') @ ''-''
      \<and> take 9 (hex u) = take 9 (hex u')"
    using append_eq_append_conv [of "str_int (timestamp_ms d) @ ''-''" "str_int (timestamp_ms d') @ ''-''"
        "take 9 (hex u)" "take 9 (hex u')"]
    by blast
  then show "timestamp_ms d = timestamp_ms d' \<and> take 9 (hex u) = take 9 (hex u')"
    by (simp add: str_int_inj)
next
  assume "timestamp_ms d = timestamp_ms d' \<and> take 9 (hex u) = take 9 (hex u')"
  then show "generate_id d u = generate_id d' u'"
    by (simp add: generate_id_def)
qed

lemma list_less_appendI:
  fixes xs ys :: "'a::order list"
  assumes "xs < ys" and "length ys \<le> length xs"
  shows "xs @ us < ys @ vs"
  using assms unfolding list_less_def by (rule lexord_sufI)

lemma list_less_same_prefix:
  fixes us vs :: "'a::order list"
  shows "us < vs \<Longrightarrow> xs @ us < xs @ vs"
  unfolding list_less_def by (rule lexord_append_leftI)

lemma str_nat_less:
  "length (str_nat a) = length (str_nat b) \<Longrightarrow> a < b \<Longrightarrow> str_nat a < str_nat b"
proof (induction a arbitrary: b rule: str_nat.induct)
  case (1 a)
  show ?case
  proof (cases "a < 10")
    case a: True
    have "b < 10"
    proof (rule ccontr)
      assume "\<not> b < 10"
      from str_nat_length_big [OF this] a "1.prems"(1) show False
        by (simp add: str_nat_small)
    qed
    with a "1.prems"(2) show ?thesis
      by (simp add: str_nat_small digit_char_less)
  next
    case a: False
    with "1.prems"(2) have b: "\<not> b < 10" by simp
    from a b "1.prems"(1) have len: "length (str_nat (a div 10)) = length (str_nat (b div 10))"
      by (simp add: str_nat_big)
    have "a div 10 < b div 10 \<or> (a div 10 = b div 10 \<and> a mod 10 < b mod 10)"
    proof (cases "a div 10 = b div 10")
      case True
      from "1.prems"(2) have "a div 10 * 10 + a mod 10 < b div 10 * 10 + b mod 10"
        by (simp only: div_mult_mod_eq)
      then have "b div 10 * 10 + a mod 10 < b div 10 * 10 + b mod 10"
        by (simp only: True)
      then have "a mod 10 < b mod 10"
        by (simp only: nat_add_left_cancel_less)
      with True show ?thesis
        by blast
    next
      case False
      moreover have "a div 10 \<le> b div 10"
        using "1.prems"(2) by (intro div_le_mono) simp
      ultimately show ?thesis
        by simp
    qed
    then show ?thesis
    proof
      assume "a div 10 < b div 10"
      from "1.IH" [OF a len this] len
      have "str_nat (a div 10) @ [digit_char (a mod 10)] < str_nat (b div 10) @ [digit_char (b mod 10)]"
        by (intro list_less_appendI) simp_all
      with a b show ?thesis by (simp add: str_nat_big)
    next
      assume *: "a div 10 = b div 10 \<and> a mod 10 < b mod 10"
      then have "digit_char (a mod 10) < digit_char (b mod 10)"
        by (intro digit_char_less) simp_all
      then have "str_nat (b div 10) @ [digit_char (a mod 10)] < str_nat (b div 10) @ [digit_char (b mod 10)]"
        by (intro list_less_same_prefix) simp
      with a b * show ?thesis by (simp add: str_nat_big)
    qed
  qed
qed

lemma generate_id_less:
  assumes "0 \<le> timestamp_ms d" and "timestamp_ms d < timestamp_ms d'"
    and "length (str_int (timestamp_ms d)) = length (str_int (timestamp_ms d'))"
  shows "generate_id d u < generate_id d' u'"
proof -
  from assms have "str_nat (nat (timestamp_ms d)) < str_nat (nat (timestamp_ms d'))"
    by (intro str_nat_less) (simp_all add: str_int_def)
  moreover from assms have "length (str_nat (nat (timestamp_ms d'))) \<le> length (str_nat (nat (timestamp_ms d)))"
    by (simp add: str_int_def)
  ultimately have "str_nat (nat (timestamp_ms d)) @ ''-'' @ take 9 (hex u)
      < str_nat (nat (timestamp_ms d')) @ ''-'' @ take 9 (hex u')"
    by (rule list_less_appendI)
  with assms show ?thesis
    by (simp add: generate_id_def str_int_def)
qed

text \<open>The identifiers of the sample session.\<close>

lemma str_int_sample: "str_int 1762250400123 = ''1762250400123''"
  by (simp add: str_int_def str_nat.simps digit_char_def)

lemma str_int_later: "str_int 1762250407654 = ''1762250407654''"
  by (simp add: str_int_def str_nat.simps digit_char_def)

lemma hex9_samples:
  "take 9 (hex 0xf3a91c5e7d2b44f08e1a6b2f9d0c7e15) = ''f3a91c5e7''"
  "take 9 (hex 0x0b5d2e8841c74c3ab6f277aa10e4c9d3) = ''0b5d2e884''"
  "take 9 (hex 0x6c1f0a2b93d84e57a4b0c5d6e7f80912) = ''6c1f0a2b9''"
  "take 9 (hex 0x9e8d7c6b5a4f4321b0a1928374655647) = ''9e8d7c6b5''"
  by (simp_all add: hex_def digit_char_def upt_rec)

lemma hex9_collision:
  "take 9 (hex 0xf3a91c5e70004abc9def0123456789ab) = ''f3a91c5e7''"
  by (simp add: hex_def digit_char_def upt_rec)

lemma sample_ids:
  "generate_id \<lparr>isoformat = s, timestamp_ms = 1762250400123\<rparr> 0xf3a91c5e7d2b44f08e1a6b2f9d0c7e15
     = ''1762250400123-f3a91c5e7''"
  "generate_id \<lparr>isoformat = s, timestamp_ms = 1762250400123\<rparr> 0x0b5d2e8841c74c3ab6f277aa10e4c9d3
     = ''1762250400123-0b5d2e884''"
  "generate_id \<lparr>isoformat = s, timestamp_ms = 1762250407654\<rparr> 0x6c1f0a2b93d84e57a4b0c5d6e7f80912
     = ''1762250407654-6c1f0a2b9''"
  "generate_id \<lparr>isoformat = s, timestamp_ms = 1762250407654\<rparr> 0x9e8d7c6b5a4f4321b0a1928374655647
     = ''1762250407654-9e8d7c6b5''"
  by (simp_all add: generate_id_def str_int_sample str_int_later hex9_samples)

text \<open>Which ids a call stores: old ids stay, new ones come from the generator.\<close>

lemma list_less_same_prefix_iff:
  fixes us vs :: "'a::order list"
  shows "xs @ us < xs @ vs \<longleftrightarrow> us < vs"
  by (induction xs) simp_all

lemma generate_id_same_ms:
  assumes "timestamp_ms d = timestamp_ms d'"
  shows "generate_id d u < generate_id d' u' \<longleftrightarrow> take 9 (hex u) < take 9 (hex u')"
proof -
  have "generate_id d u < generate_id d' u'
      \<longleftrightarrow> (str_int (timestamp_ms d') @ ''-'') @ take 9 (hex u)
          < (str_int (timestamp_ms d') @ ''-'') @ take 9 (hex u')"
    by (simp add: generate_id_def assms)
  then show ?thesis
    by (simp only: list_less_same_prefix_iff)
qed

lemma digit_char_hex: "n < 16 \<Longrightarrow> digit_char n \<in> set ''0123456789abcdef''"
  unfolding digit_char_def by (rule nth_mem) simp

lemma nibble_bound: "unat (w AND (15 :: 128 word)) < 16"
proof -
  have "w AND 15 \<le> (15 :: 128 word)"
    by (rule word_and_le1)
  then have "unat (w AND 15) \<le> unat (15 :: 128 word)"
    by (simp add: word_le_nat_alt)
  then show ?thesis
    by simp
qed

lemma hex_digits: "set (hex u) \<subseteq> set ''0123456789abcdef''"
  unfolding hex_def using digit_char_hex [OF nibble_bound] by auto

lemma hex9_digits: "set (take 9 (hex u)) \<subseteq> set ''0123456789abcdef''"
  using set_take_subset [of 9 "hex u"] hex_digits [of u] by (rule subset_trans)

lemma digit_char_dec: "n < 10 \<Longrightarrow> digit_char n \<in> set ''0123456789''"
  using small_cases [of n] by (auto simp add: digit_char_def)

lemma str_int_digits:
  assumes "0 \<le> i"
  shows "set (str_int i) \<subseteq> set ''0123456789''"
proof
  fix c
  assume "c \<in> set (str_int i)"
  with assms have "c \<in> set (str_nat (nat i))"
    by (simp add: str_int_def)
  then obtain k where "k < 10" and "c = digit_char k"
    using str_nat_digits by blast
  then show "c \<in> set ''0123456789''"
    using digit_char_dec by blast
qed

lemma replace_first_ids:
  "t_id y = task_id \<Longrightarrow> map t_id (replace_first (\<lambda>t. t_id t = task_id) y ts) = map t_id ts"
  by (induction ts) simp_all

lemma find_id: "find (\<lambda>t. t_id t = task_id) ts = Some x \<Longrightarrow> t_id x = task_id"
  by (induction ts) (simp_all split: if_splits)

lemma task_ids_update_task:
  "map t_id (tasks (snd (update_task e a st))) = map t_id (tasks st)"
proof (cases "a_taskId a")
  case None
  then show ?thesis by (simp add: update_task_def)
next
  case (Some task_id)
  show ?thesis
  proof (cases "find (\<lambda>t. t_id t = task_id) (tasks st)")
    case None
    with Some show ?thesis by (simp add: update_task_def)
  next
    case found: (Some x)
    from find_id [OF found] have "t_id x = task_id" .
    with Some found show ?thesis
      by (simp add: update_task_def Let_def replace_first_ids split: option.splits)
  qed
qed

lemma grows_by_same: "grows_by fresh old old"
  by (simp add: grows_by_def)

lemma task_ids_create_task:
  "grows_by [generate_id (now e 0) (uuid4 e 0)]
     (map t_id (tasks st)) (map t_id (tasks (snd (create_task e a st))))"
  by (simp add: create_task_def grows_by_def Let_def split: option.splits)

lemma tasks_send_message: "tasks (snd (send_message e a st)) = tasks st"
  by (simp add: send_message_def Let_def split: option.splits)

lemma tasks_get_messages: "tasks (snd (get_messages a st)) = tasks st"
  by (simp add: get_messages_def Let_def split: option.splits)

lemma tasks_mark_messages_read: "tasks (snd (mark_messages_read a st)) = tasks st"
  by (simp add: mark_messages_read_def mark_loop_eq split: option.splits)

lemma tasks_get_tasks: "tasks (snd (get_tasks a st)) = tasks st"
  by (simp add: get_tasks_def Let_def split: option.splits)

lemma tasks_update_context: "tasks (snd (update_context e a st)) = tasks st"
  by (simp add: update_context_def Let_def)

lemma tasks_announce_presence: "tasks (snd (announce_presence e a st)) = tasks st"
  by (simp add: announce_presence_def Let_def split: option.splits)

lemma task_ids_step:
  "grows_by [generate_id (now e 0) (uuid4 e 0)]
     (map t_id (tasks st)) (map t_id (tasks (snd (call_tool e name a st))))"
  unfolding call_tool_def
  using task_ids_create_task [of e st a]
  by (simp add: tasks_send_message tasks_get_messages tasks_mark_messages_read tasks_get_tasks
        task_ids_update_task tasks_update_context tasks_announce_presence get_context_def
        grows_by_same)

lemma message_ids_send_message:
  "grows_by [generate_id (now e 0) (uuid4 e 0), generate_id (now e 3) (uuid4 e 1),
             generate_id (now e 1) (uuid4 e 0)]
     (map m_id (messages st)) (map m_id (messages (snd (send_message e a st))))"
  by (simp add: send_message_def grows_by_def Let_def split: option.splits)

lemma message_ids_create_task:
  "grows_by [generate_id (now e 0) (uuid4 e 0), generate_id (now e 3) (uuid4 e 1),
             generate_id (now e 1) (uuid4 e 0)]
     (map m_id (messages st)) (map m_id (messages (snd (create_task e a st))))"
  by (simp add: create_task_def grows_by_def Let_def split: option.splits)

lemma message_ids_update_task:
  "grows_by [generate_id (now e 0) (uuid4 e 0), generate_id (now e 3) (uuid4 e 1),
             generate_id (now e 1) (uuid4 e 0)]
     (map m_id (messages st)) (map m_id (messages (snd (update_task e a st))))"
  by (simp add: update_task_def grows_by_def Let_def split: option.splits)

lemma message_ids_announce_presence:
  "grows_by [generate_id (now e 0) (uuid4 e 0), generate_id (now e 3) (uuid4 e 1),
             generate_id (now e 1) (uuid4 e 0)]
     (map m_id (messages st)) (map m_id (messages (snd (announce_presence e a st))))"
  by (simp add: announce_presence_def grows_by_def Let_def split: option.splits)

lemma message_ids_mark_messages_read:
  "map m_id (messages (snd (mark_messages_read a st))) = map m_id (messages st)"
  by (simp add: mark_messages_read_def mark_loop_eq comp_def split: option.splits)

lemma messages_get_messages: "messages (snd (get_messages a st)) = messages st"
  by (simp add: get_messages_def Let_def split: option.splits)

lemma messages_get_tasks: "messages (snd (get_tasks a st)) = messages st"
  by (simp add: get_tasks_def Let_def split: option.splits)

lemma messages_update_context: "messages (snd (update_context e a st)) = messages st"
  by (simp add: update_context_def Let_def)

lemma message_ids_step:
  "grows_by [generate_id (now e 0) (uuid4 e 0), generate_id (now e 3) (uuid4 e 1),
             generate_id (now e 1) (uuid4 e 0)]
     (map m_id (messages st)) (map m_id (messages (snd (call_tool e name a st))))"
  unfolding call_tool_def
  using message_ids_send_message [of e st a] message_ids_create_task [of e st a]
    message_ids_update_task [of e st a] message_ids_announce_presence [of e st a]
  by (simp add: message_ids_mark_messages_read messages_get_messages messages_get_tasks
        messages_update_context get_context_def grows_by_same)

lemma grows_by_prefix: "grows_by fresh old new \<Longrightarrow> prefix old new"
  by (auto simp add: grows_by_def)

lemma ids_kept:
  "prefix (map m_id (messages st)) (map m_id (messages (run calls st)))
   \<and> prefix (map t_id (tasks st)) (map t_id (tasks (run calls st)))"
proof (induction calls arbitrary: st)
  case Nil
  show ?case by simp
next
  case (Cons c calls)
  obtain e name a where c: "c = (e, name, a)"
    by (cases c) auto
  let ?st = "snd (call_tool e name a st)"
  have m: "prefix (map m_id (messages st)) (map m_id (messages ?st))"
    using message_ids_step [of e st name a] by (rule grows_by_prefix)
  have t: "prefix (map t_id (tasks st)) (map t_id (tasks ?st))"
    using task_ids_step [of e st name a] by (rule grows_by_prefix)
  from Cons.IH [of ?st] have "prefix (map m_id (messages ?st)) (map m_id (messages (run calls ?st)))"
    and "prefix (map t_id (tasks ?st)) (map t_id (tasks (run calls ?st)))"
    by simp_all
  with m t have "prefix (map m_id (messages st)) (map m_id (messages (run calls ?st)))"
    and "prefix (map t_id (tasks st)) (map t_id (tasks (run calls ?st)))"
    by (blast intro: prefix_order.trans)+
  with c show ?case
    by simp
qed

lemma send_message_id:
  assumes "a_from a = Some frm" and "a_to a = Some rcpt" and "a_content a = Some content"
  shows "fst (call_tool e ''send_message'' a st) = Inr (MessageSent (generate_id (now e 0) (uuid4 e 0)))
    \<and> map m_id (messages (snd (call_tool e ''send_message'' a st)))
        = map m_id (messages st) @ [generate_id (now e 0) (uuid4 e 0)]"
  using assms by (simp add: call_tool_def send_message_def Let_def)

lemma create_task_ids:
  assumes "a_title a = Some title" and "a_description a = Some descr"
    and "a_assignedTo a = Some assignee" and "a_createdBy a = Some creator"
  shows "fst (call_tool e ''create_task'' a st) = Inr (TaskCreated (generate_id (now e 0) (uuid4 e 0)))
    \<and> map t_id (tasks (snd (call_tool e ''create_task'' a st)))
        = map t_id (tasks st) @ [generate_id (now e 0) (uuid4 e 0)]
    \<and> map m_id (messages (snd (call_tool e ''create_task'' a st)))
        = map m_id (messages st) @ [generate_id (now e 3) (uuid4 e 1)]"
  using assms by (simp add: call_tool_def create_task_def Let_def)

lemma task_ids_step_cases:
  "map t_id (tasks (snd (call_tool e name a st))) = map t_id (tasks st)
   \<or> map t_id (tasks (snd (call_tool e name a st)))
       = map t_id (tasks st) @ [generate_id (now e 0) (uuid4 e 0)]"
  using task_ids_step [of e st name a] by (simp add: grows_by_def)

lemma message_ids_step_cases:
  "map m_id (messages (snd (call_tool e name a st))) = map m_id (messages st)
   \<or> map m_id (messages (snd (call_tool e name a st)))
       = map m_id (messages st) @ [generate_id (now e 0) (uuid4 e 0)]
   \<or> map m_id (messages (snd (call_tool e name a st)))
       = map m_id (messages st) @ [generate_id (now e 3) (uuid4 e 1)]
   \<or> map m_id (messages (snd (call_tool e name a st)))
       = map m_id (messages st) @ [generate_id (now e 1) (uuid4 e 0)]"
  using message_ids_step [of e st name a] by (simp add: grows_by_def)

text \<open>
  Claim C3, as amended. \<^verbatim>\<open>generate_id\<close> returns the decimal rendering of the
  millisecond reading of the clock (digits only when it is not negative), a hyphen, and
  the first nine of the 32 lower-case hexadecimal digits of a fresh UUID. Two calls
  return the same identifier exactly when they read the same millisecond and draw UUIDs
  with the same first nine digits, so identifiers are distinct only up to such a
  collision. Within one millisecond the order of two identifiers, as strings, is the
  order of their nine random digits; an identifier generated at a strictly later,
  non-negative millisecond reading with the same number of decimal digits is strictly
  greater. Stored ids: a successful \<^verbatim>\<open>send_message\<close> returns and stores the identifier
  of its one generator call, a successful \<^verbatim>\<open>create_task\<close> returns and stores the
  identifier of its first generator call as the task id and stores that of its second
  as the id of the notification; every call of the handler leaves the stored task ids
  and message ids as they are or appends one identifier produced by the generator in
  that call; and along every sequence of calls the ids once stored stay, in order, at
  the front of the id lists.
\<close>

theorem generate_id_spec:
  "generate_id d u = str_int (timestamp_ms d) @ ''-'' @ take 9 (hex u)
   \<and> length (take 9 (hex u)) = 9
   \<and> set (take 9 (hex u)) \<subseteq> set ''0123456789abcdef''
   \<and> (0 \<le> timestamp_ms d \<longrightarrow> set (str_int (timestamp_ms d)) \<subseteq> set ''0123456789'')
   \<and> (generate_id d u = generate_id d' u'
        \<longleftrightarrow> timestamp_ms d = timestamp_ms d' \<and> take 9 (hex u) = take 9 (hex u'))
   \<and> (timestamp_ms d = timestamp_ms d'
        \<longrightarrow> (generate_id d u < generate_id d' u' \<longleftrightarrow> take 9 (hex u) < take 9 (hex u')))
   \<and> (0 \<le> timestamp_ms d \<and> timestamp_ms d < timestamp_ms d'
        \<and> length (str_int (timestamp_ms d)) = length (str_int (timestamp_ms d'))
        \<longrightarrow> generate_id d u < generate_id d' u')
   \<and> (a_from a = Some frm \<and> a_to a = Some rcpt \<and> a_content a = Some content
        \<longrightarrow> fst (call_tool e ''send_message'' a st)
              = Inr (MessageSent (generate_id (now e 0) (uuid4 e 0)))
          \<and> map m_id (messages (snd (call_tool e ''send_message'' a st)))
              = map m_id (messages st) @ [generate_id (now e 0) (uuid4 e 0)])
   \<and> (a_title a = Some title \<and> a_description a = Some descr
        \<and> a_assignedTo a = Some assignee \<and> a_createdBy a = Some creator
        \<longrightarrow> fst (call_tool e ''create_task'' a st)
              = Inr (TaskCreated (generate_id (now e 0) (uuid4 e 0)))
          \<and> map t_id (tasks (snd (call_tool e ''create_task'' a st)))
              = map t_id (tasks st) @ [generate_id (now e 0) (uuid4 e 0)]
          \<and> map m_id (messages (snd (call_tool e ''create_task'' a st)))
              = map m_id (messages st) @ [generate_id (now e 3) (uuid4 e 1)])
   \<and> (map t_id (tasks (snd (call_tool e name a st))) = map t_id (tasks st)
        \<or> map t_id (tasks (snd (call_tool e name a st)))
            = map t_id (tasks st) @ [generate_id (now e 0) (uuid4 e 0)])
   \<and> (map m_id (messages (snd (call_tool e name a st))) = map m_id (messages st)
        \<or> map m_id (messages (snd (call_tool e name a st)))
            = map m_id (messages st) @ [generate_id (now e 0) (uuid4 e 0)]
        \<or> map m_id (messages (snd (call_tool e name a st)))
            = map m_id (messages st) @ [generate_id (now e 3) (uuid4 e 1)]
        \<or> map m_id (messages (snd (call_tool e name a st)))
            = map m_id (messages st) @ [generate_id (now e 1) (uuid4 e 0)])
   \<and> prefix (map m_id (messages st)) (map m_id (messages (run calls st)))
   \<and> prefix (map t_id (tasks st)) (map t_id (tasks (run calls st)))"
proof (intro conjI impI)
  show "generate_id d u = str_int (timestamp_ms d) @ ''-'' @ take 9 (hex u)"
    by (simp only: generate_id_def)
  show "length (take 9 (hex u)) = 9"
    by (rule length_hex9)
  show "set (take 9 (hex u)) \<subseteq> set ''0123456789abcdef''"
    by (rule hex9_digits)
  show "set (str_int (timestamp_ms d)) \<subseteq> set ''0123456789''" if "0 \<le> timestamp_ms d"
    using that by (rule str_int_digits)
  show "generate_id d u = generate_id d' u'
      \<longleftrightarrow> timestamp_ms d = timestamp_ms d' \<and> take 9 (hex u) = take 9 (hex u')"
    by (rule generate_id_eq_iff)
  show "generate_id d u < generate_id d' u' \<longleftrightarrow> take 9 (hex u) < take 9 (hex u')"
    if "timestamp_ms d = timestamp_ms d'"
    using that by (rule generate_id_same_ms)
  show "generate_id d u < generate_id d' u'"
    if "0 \<le> timestamp_ms d \<and> timestamp_ms d < timestamp_ms d'
        \<and> length (str_int (timestamp_ms d)) = length (str_int (timestamp_ms d'))"
    using that generate_id_less [of d d' u u'] by blast
  show "fst (call_tool e ''send_message'' a st) = Inr (MessageSent (generate_id (now e 0) (uuid4 e 0)))"
    and "map m_id (messages (snd (call_tool e ''send_message'' a st)))
        = map m_id (messages st) @ [generate_id (now e 0) (uuid4 e 0)]"
    if "a_from a = Some frm \<and> a_to a = Some rcpt \<and> a_content a = Some content"
    using that send_message_id [of a frm rcpt content e st] by blast+
  show "fst (call_tool e ''create_task'' a st) = Inr (TaskCreated (generate_id (now e 0) (uuid4 e 0)))"
    and "map t_id (tasks (snd (call_tool e ''create_task'' a st)))
        = map t_id (tasks st) @ [generate_id (now e 0) (uuid4 e 0)]"
    and "map m_id (messages (snd (call_tool e ''create_task'' a st)))
        = map m_id (messages st) @ [generate_id (now e 3) (uuid4 e 1)]"
    if "a_title a = Some title \<and> a_description a = Some descr
        \<and> a_assignedTo a = Some assignee \<and> a_createdBy a = Some creator"
    using that create_task_ids [of a title descr assignee creator e st] by blast+
  show "map t_id (tasks (snd (call_tool e name a st))) = map t_id (tasks st)
      \<or> map t_id (tasks (snd (call_tool e name a st)))
          = map t_id (tasks st) @ [generate_id (now e 0) (uuid4 e 0)]"
    by (rule task_ids_step_cases)
  show "map m_id (messages (snd (call_tool e name a st))) = map m_id (messages st)
      \<or> map m_id (messages (snd (call_tool e name a st)))
          = map m_id (messages st) @ [generate_id (now e 0) (uuid4 e 0)]
      \<or> map m_id (messages (snd (call_tool e name a st)))
          = map m_id (messages st) @ [generate_id (now e 3) (uuid4 e 1)]
      \<or> map m_id (messages (snd (call_tool e name a st)))
          = map m_id (messages st) @ [generate_id (now e 1) (uuid4 e 0)]"
    by (rule message_ids_step_cases)
  show "prefix (map m_id (messages st)) (map m_id (messages (run calls st)))"
    and "prefix (map t_id (tasks st)) (map t_id (tasks (run calls st)))"
    using ids_kept [of st calls] by blast+
qed

theorem generate_id_spec_witness:
  "generate_id (sample_clock 0) 0xf3a91c5e7d2b44f08e1a6b2f9d0c7e15
     < generate_id (later_clock 0) 0x0b5d2e8841c74c3ab6f277aa10e4c9d3
   \<and> generate_id (sample_clock 0) 0x0b5d2e8841c74c3ab6f277aa10e4c9d3
     < generate_id (sample_clock 3) 0xf3a91c5e7d2b44f08e1a6b2f9d0c7e15
   \<and> map t_id (tasks (snd (call_tool sample_env ''create_task'' deploy_request sample_store)))
     = [t_id task_parser, t_id task_docs, ''1762250400123-f3a91c5e7'']
   \<and> map m_id (messages (snd (call_tool sample_env ''send_message''
         (no_arguments\<lparr>a_from := Some ''codex'', a_to := Some ''cascade'', a_content := Some ''ok''\<rparr>)
         sample_store)))
     = [m_id msg_hello, m_id msg_reply, m_id msg_notice, ''1762250400123-f3a91c5e7'']"
  using
    generate_id_spec [where d = "sample_clock 0" and u = "0xf3a91c5e7d2b44f08e1a6b2f9d0c7e15"
      and d' = "later_clock 0" and u' = "0x0b5d2e8841c74c3ab6f277aa10e4c9d3"
      and a = deploy_request and title = "''Deploy''" and descr = "''ship it''"
      and assignee = "''codex''" and creator = "''cascade''"
      and e = sample_env and st = sample_store]
    generate_id_spec [where d = "sample_clock 0" and u = "0x0b5d2e8841c74c3ab6f277aa10e4c9d3"
      and d' = "sample_clock 3" and u' = "0xf3a91c5e7d2b44f08e1a6b2f9d0c7e15"
      and a = "no_arguments\<lparr>a_from := Some ''codex'', a_to := Some ''cascade'', a_content := Some ''ok''\<rparr>"
      and frm = "''codex''" and rcpt = "''cascade''" and content = "''ok''"
      and e = sample_env and st = sample_store]
  by (simp add: deploy_request_def no_arguments_def sample_env_def sample_clock_def later_clock_def
        sample_store_def sample_ids str_int_sample str_int_later hex9_samples)

text \<open>
  The claim as stated fails. Two different UUIDs that agree on their first nine digits,
  drawn in the same millisecond, give the same identifier; and of two calls in the same
  millisecond (as the two calls made by one \<^verbatim>\<open>create_task\<close>), the later one gives the
  smaller identifier when its random digits are smaller.
\<close>

theorem generate_id_unique_monotonic_counterexample:
  "(0xf3a91c5e7d2b44f08e1a6b2f9d0c7e15 :: uuid) \<noteq> 0xf3a91c5e70004abc9def0123456789ab
   \<and> generate_id (sample_clock 0) 0xf3a91c5e7d2b44f08e1a6b2f9d0c7e15
       = generate_id (sample_clock 3) 0xf3a91c5e70004abc9def0123456789ab
   \<and> generate_id (sample_clock 0) 0xf3a91c5e7d2b44f08e1a6b2f9d0c7e15 = ''1762250400123-f3a91c5e7''
   \<and> generate_id (sample_clock 3) 0x0b5d2e8841c74c3ab6f277aa10e4c9d3 = ''1762250400123-0b5d2e884''
   \<and> generate_id (sample_clock 3) 0x0b5d2e8841c74c3ab6f277aa10e4c9d3
       < generate_id (sample_clock 0) 0xf3a91c5e7d2b44f08e1a6b2f9d0c7e15"
  by (simp add: sample_clock_def generate_id_def str_int_sample hex9_samples hex9_collision)

subsection \<open>Creating a task\<close>

lemma sublist_in_body: "sublist t (p @ q @ t @ r)"
  by (metis append.assoc sublist_appendI)

lemma sublist_in_body2: "sublist t (p @ q @ u @ q' @ c1 # c2 # t @ r)"
proof -
  have "sublist t ((p @ q @ u @ q' @ [c1, c2]) @ t @ r)"
    by (rule sublist_appendI)
  then show ?thesis by simp
qed

text \<open>
  Claim C6, as amended. A \<^verbatim>\<open>create_task\<close> call that carries its four required
  arguments succeeds and appends exactly one task, with the given title, description,
  assignee and creator, status \<^verbatim>\<open>pending\<close>, the given priority or \<^verbatim>\<open>medium\<close>, and
  \<^verbatim>\<open>createdAt\<close> and \<^verbatim>\<open>updatedAt\<close> set to two successive readings of the clock. It
  appends exactly one unread message from the creator to the assignee whose body contains
  the title and the priority, and changes nothing else. A listing of the assignee's
  unread messages immediately afterwards is the listing before the call followed by that
  one notification.
\<close>

theorem create_task_spec:
  assumes "a_title a = Some title" and "a_description a = Some descr"
    and "a_assignedTo a = Some assignee" and "a_createdBy a = Some creator"
    and "a_agent g = Some assignee" and "a_unreadOnly g = Some True"
  shows "let priority = (case a_priority a of None \<Rightarrow> ''medium'' | Some p \<Rightarrow> p);
             st' = snd (call_tool e ''create_task'' a st);
             t = last (tasks st'); n = last (messages st');
             unread = filter (\<lambda>m. (m_to m = assignee \<or> m_to m = ''all'') \<and> \<not> m_read m) (messages st)
         in fst (call_tool e ''create_task'' a st) = Inr (TaskCreated (t_id t))
            \<and> tasks st' = tasks st @ [t]
            \<and> t_title t = title \<and> t_description t = descr \<and> t_assignedTo t = assignee
            \<and> t_createdBy t = creator \<and> t_status t = ''pending'' \<and> t_priority t = priority
            \<and> t_createdAt t = isoformat (now e 1) \<and> t_updatedAt t = isoformat (now e 2)
            \<and> messages st' = messages st @ [n]
            \<and> m_from n = creator \<and> m_to n = assignee \<and> \<not> m_read n
            \<and> sublist title (m_content n) \<and> sublist priority (m_content n)
            \<and> shared_context st' = shared_context st
            \<and> call_tool e' ''get_messages'' g st'
                = (Inr (MessageList (Suc (length unread)) (unread @ [n])), st')"
  using assms
  by (simp add: call_tool_def create_task_def get_messages_def Let_def sublist_in_body sublist_in_body2)

theorem create_task_spec_witness:
  "call_tool sample_env ''create_task''
      deploy_request sample_store
   = (Inr (TaskCreated ''1762250400123-f3a91c5e7''),
      sample_store\<lparr>tasks := [task_parser, task_docs,
           \<lparr>t_id = ''1762250400123-f3a91c5e7'', t_title = ''Deploy'', t_description = ''ship it'',
             t_assignedTo = ''codex'', t_createdBy = ''cascade'', t_status = ''pending'',
             t_priority = ''medium'', t_createdAt = ''2025-11-04T10:00:00.123451'',
             t_updatedAt = ''2025-11-04T10:00:00.123452'', t_context = JObj []\<rparr>],
         messages := [msg_hello, msg_reply, msg_notice,
           \<lparr>m_id = ''1762250400123-0b5d2e884'', m_from = ''cascade'', m_to = ''codex'',
             m_content = new_task_prefix @ quote @ ''Deploy'' @ quote @ '' (medium)'',
             m_timestamp = ''2025-11-04T10:00:00.123454'', m_read = False\<rparr>]\<rparr>)"
  using create_task_spec
     [of deploy_request "''Deploy''" "''ship it''" "''codex''" "''cascade''"
         "no_arguments\<lparr>a_agent := Some ''codex'', a_unreadOnly := Some True\<rparr>"
         sample_env sample_store later_env]
  by (simp add: deploy_request_def no_arguments_def sample_env_def call_tool_def create_task_def sample_ids
        sample_clock_def digit_char_def sample_store_def Let_def)

text \<open>
  The claim as stated fails. The two timestamps of the new task are separate readings of
  the clock and differ when the clock advances between them; and after two requests with
  the same title the assignee's unread listing holds two notifications that reference the
  title, not exactly one.
\<close>

theorem create_task_notifications_counterexample:
  "tasks (snd (call_tool sample_env ''create_task'' deploy_request sample_store))
     = [task_parser, task_docs,
        \<lparr>t_id = ''1762250400123-f3a91c5e7'', t_title = ''Deploy'', t_description = ''ship it'',
          t_assignedTo = ''codex'', t_createdBy = ''cascade'', t_status = ''pending'',
          t_priority = ''medium'', t_createdAt = ''2025-11-04T10:00:00.123451'',
          t_updatedAt = ''2025-11-04T10:00:00.123452'', t_context = JObj []\<rparr>]
   \<and> fst (call_tool later_env ''get_messages''
          (no_arguments\<lparr>a_agent := Some ''codex'', a_unreadOnly := Some True\<rparr>)
          (run [(sample_env, ''create_task'', deploy_request),
                (later_env, ''create_task'', deploy_request)] sample_store))
     = Inr (MessageList 3
        [msg_hello,
         \<lparr>m_id = ''1762250400123-0b5d2e884'', m_from = ''cascade'', m_to = ''codex'',
           m_content = new_task_prefix @ quote @ ''Deploy'' @ quote @ '' (medium)'',
           m_timestamp = ''2025-11-04T10:00:00.123454'', m_read = False\<rparr>,
         \<lparr>m_id = ''1762250407654-9e8d7c6b5'', m_from = ''cascade'', m_to = ''codex'',
           m_content = new_task_prefix @ quote @ ''Deploy'' @ quote @ '' (medium)'',
           m_timestamp = ''2025-11-04T10:00:07.654324'', m_read = False\<rparr>])"
  by (simp add: deploy_request_def no_arguments_def sample_env_def later_env_def call_tool_def
        create_task_def get_messages_def sample_ids sample_clock_def later_clock_def digit_char_def
        sample_store_def msg_hello_def msg_reply_def msg_notice_def Let_def)

subsection \<open>Completing a task\<close>

text \<open>
  Claim C2, as amended. An \<^verbatim>\<open>update_task\<close> call on an existing task appends exactly
  one message when its \<^verbatim>\<open>status\<close> argument is present and equal to \<^verbatim>\<open>completed\<close>:
  an unread message from the task's assignee to its creator whose body contains the
  title and, when a \<^verbatim>\<open>notes\<close> argument was supplied, the notes. In every other case,
  also when the task's stored status is already \<^verbatim>\<open>completed\<close> and the call supplies no
  status, it appends no message.
\<close>

theorem update_task_completion_notice:
  assumes "a_taskId a = Some task_id"
    and "find (\<lambda>t. t_id t = task_id) (tasks st) = Some found"
  shows "let st' = snd (call_tool e ''update_task'' a st); m = last (messages st')
         in (a_status a = Some ''completed'' \<longrightarrow>
               messages st' = messages st @ [m]
               \<and> m_from m = t_assignedTo found \<and> m_to m = t_createdBy found \<and> \<not> m_read m
               \<and> sublist (t_title found) (m_content m)
               \<and> (\<forall>n. a_notes a = Some n \<longrightarrow> sublist n (m_content m)))
            \<and> (a_status a \<noteq> Some ''completed'' \<longrightarrow> messages st' = messages st)"
proof (cases "a_status a = Some ''completed''")
  case True
  have t_in: "sublist (t_title found) (completed_prefix @ quote @ t_title found @ quote @ rest)" for rest
    by (metis append.assoc sublist_appendI)
  have n_in: "sublist n (completed_prefix @ quote @ t_title found @ quote @ c1 # c2 # c3 # n)" for n c1 c2 c3
  proof -
    have "sublist n ((completed_prefix @ quote @ t_title found @ quote @ [c1, c2, c3]) @ n)"
      by (rule sublist_append_leftI)
    then show ?thesis by simp
  qed
  from True assms t_in n_in show ?thesis
    by (simp add: call_tool_def update_task_def Let_def split: option.splits)
next
  case False
  with assms show ?thesis
    by (simp add: call_tool_def update_task_def Let_def split: option.splits)
qed

theorem update_task_completion_notice_witness:
  "messages (snd (call_tool sample_env ''update_task''
      (no_arguments\<lparr>a_taskId := Some (t_id task_parser), a_status := Some ''completed'',
                     a_notes := Some ''done''\<rparr>) sample_store))
   = messages sample_store @
     [\<lparr>m_id = ''1762250400123-f3a91c5e7'', m_from = ''codex'', m_to = ''cascade'',
       m_content = completed_prefix @ quote @ ''Fix parser'' @ quote @ '' - done'',
       m_timestamp = ''2025-11-04T10:00:00.123452'', m_read = False\<rparr>]
   \<and> sublist ''Fix parser'' (m_content (last (messages (snd (call_tool sample_env ''update_task''
      (no_arguments\<lparr>a_taskId := Some (t_id task_parser), a_status := Some ''completed'',
                     a_notes := Some ''done''\<rparr>) sample_store)))))
   \<and> sublist ''done'' (m_content (last (messages (snd (call_tool sample_env ''update_task''
      (no_arguments\<lparr>a_taskId := Some (t_id task_parser), a_status := Some ''completed'',
                     a_notes := Some ''done''\<rparr>) sample_store)))))"
  using update_task_completion_notice
     [of "no_arguments\<lparr>a_taskId := Some (t_id task_parser), a_status := Some ''completed'',
                     a_notes := Some ''done''\<rparr>" "t_id task_parser" sample_store task_parser sample_env]
  by (simp add: sample_defs call_tool_def update_task_def sample_ids digit_char_def Let_def)

text \<open>
  The claim as stated fails: on a task whose status is already \<^verbatim>\<open>completed\<close>, a call
  that supplies only notes returns the task with status \<^verbatim>\<open>completed\<close> and appends no
  message.
\<close>

theorem update_task_carried_status_counterexample:
  "t_status task_docs = ''completed''
   \<and> call_tool sample_env ''update_task''
        (no_arguments\<lparr>a_taskId := Some (t_id task_docs), a_notes := Some ''typo fixed''\<rparr>) sample_store
      = (Inr (TaskUpdated (task_docs\<lparr>t_updatedAt := ''2025-11-04T10:00:00.123450''\<rparr>)),
         sample_store\<lparr>tasks := [task_parser, task_docs\<lparr>t_updatedAt := ''2025-11-04T10:00:00.123450''\<rparr>]\<rparr>)
   \<and> messages (sample_store\<lparr>tasks := [task_parser, task_docs\<lparr>t_updatedAt := ''2025-11-04T10:00:00.123450''\<rparr>]\<rparr>)
      = messages sample_store"
  by (simp add: sample_defs call_tool_def update_task_def digit_char_def Let_def)

end
